theory Spec2Isabelle
  imports Main
begin

section \<open>Strings as byte sequences\<close>

text \<open>
  A Go string is a sequence of bytes; \<open>len\<close> counts bytes and slicing is by byte index.
  It is modelled as a \<open>string\<close> (a list of 8-bit characters).

  The validator iterates over runes (\<open>for i, char := range v.query\<close>) and compares them
  with ASCII characters only. UTF-8 decoding yields every byte below \<open>0x80\<close> as a rune
  of its own, at its own byte index, and every other rune (a multi-byte sequence, or the
  replacement rune for an invalid byte) consists of bytes from \<open>0x80\<close> on and is at
  least \<open>0x80\<close>. A loop that only tests runes against ASCII characters therefore behaves
  the same when it visits bytes, which is how the loops are written below. The regular
  expressions of the validator only name ASCII characters and negated ASCII classes, so the
  same holds for them.
\<close>

definition isASCII :: "char \<Rightarrow> bool" where
  "isASCII c = ((of_char c :: nat) < 128)"

text \<open>The class \<open>\s\<close> of Go regular expressions: tab, newline, form feed, carriage return, space.\<close>

definition isSpaceRE :: "char \<Rightarrow> bool" where
  "isSpaceRE c =
     (c = CHR 0x09 \<or> c = CHR 0x0A \<or> c = CHR 0x0C \<or> c = CHR 0x0D \<or> c = CHR 0x20)"

text \<open>The class \<open>\w\<close> that decides the ASCII word boundary \<open>\b\<close>: digits, letters, underscore.\<close>

definition isWordChar :: "char \<Rightarrow> bool" where
  "isWordChar c =
     (let n = (of_char c :: nat)
      in (48 \<le> n \<and> n \<le> 57) \<or> (65 \<le> n \<and> n \<le> 90) \<or> (97 \<le> n \<and> n \<le> 122) \<or> n = 95)"

text \<open>The class \<open>[0-9A-F]\<close>.\<close>

definition isHexUpper :: "char \<Rightarrow> bool" where
  "isHexUpper c =
     (let n = (of_char c :: nat) in (48 \<le> n \<and> n \<le> 57) \<or> (65 \<le> n \<and> n \<le> 70))"

definition asciiUpper :: "char \<Rightarrow> char" where
  "asciiUpper c =
     (let n = (of_char c :: nat) in if 97 \<le> n \<and> n \<le> 122 then char_of (n - 32) else c)"

text \<open>\<open>strings.HasPrefix\<close>.\<close>

fun HasPrefix :: "string \<Rightarrow> string \<Rightarrow> bool" where
  "HasPrefix s [] = True"
| "HasPrefix [] (p # ps) = False"
| "HasPrefix (c # cs) (p # ps) = (c = p \<and> HasPrefix cs ps)"

text \<open>\<open>strings.Contains\<close>: the substring occurs at some byte position.\<close>

fun Contains :: "string \<Rightarrow> string \<Rightarrow> bool" where
  "Contains [] sub = (sub = [])"
| "Contains (c # cs) sub = (if HasPrefix (c # cs) sub then True else Contains cs sub)"

text \<open>
  \<open>strings.Count\<close> for a non-empty substring: the number of non-overlapping occurrences,
  found from the left. The validator only counts non-empty literals; the substring is
  given as its first byte and the rest.
\<close>

function Count :: "string \<Rightarrow> char \<Rightarrow> string \<Rightarrow> nat" where
  "Count [] p ps = 0"
| "Count (c # cs) p ps =
     (if HasPrefix (c # cs) (p # ps) then Suc (Count (drop (length ps) cs) p ps)
      else Count cs p ps)"
  by pat_completeness auto
termination
  by (relation "measure (\<lambda>(s, p, ps). length s)") auto

text \<open>
  \<open>strings.ToUpper\<close>: a string of ASCII bytes has its letters \<open>a\<close> to \<open>z\<close> mapped to upper
  case. Any other string is mapped rune by rune through the Unicode case tables
  (\<open>strings.Map(unicode.ToUpper, s)\<close>); those tables are not part of the repository, so
  that mapping is the parameter \<open>mapUpper\<close>.
\<close>

definition ToUpper :: "(string \<Rightarrow> string) \<Rightarrow> string \<Rightarrow> string" where
  "ToUpper mapUpper s = (if list_all isASCII s then map asciiUpper s else mapUpper s)"

text \<open>
  \<open>strings.TrimSpace\<close> removes leading and trailing white space as Unicode defines it
  (\<open>unicode.IsSpace\<close>). The white space runes, in their UTF-8 encoding: the six ASCII ones
  (tab, newline, vertical tab, form feed, carriage return, space), U+0085, U+00A0, U+1680,
  U+2000 to U+200A, U+2028, U+2029, U+202F, U+205F and U+3000.
\<close>

definition unicodeSpaces :: "string list" where
  "unicodeSpaces =
     [[CHR 0x09], [CHR 0x0A], [CHR 0x0B], [CHR 0x0C], [CHR 0x0D], [CHR 0x20],
      [CHR 0xC2, CHR 0x85], [CHR 0xC2, CHR 0xA0],
      [CHR 0xE1, CHR 0x9A, CHR 0x80],
      [CHR 0xE2, CHR 0x80, CHR 0x80], [CHR 0xE2, CHR 0x80, CHR 0x81],
      [CHR 0xE2, CHR 0x80, CHR 0x82], [CHR 0xE2, CHR 0x80, CHR 0x83],
      [CHR 0xE2, CHR 0x80, CHR 0x84], [CHR 0xE2, CHR 0x80, CHR 0x85],
      [CHR 0xE2, CHR 0x80, CHR 0x86], [CHR 0xE2, CHR 0x80, CHR 0x87],
      [CHR 0xE2, CHR 0x80, CHR 0x88], [CHR 0xE2, CHR 0x80, CHR 0x89],
      [CHR 0xE2, CHR 0x80, CHR 0x8A],
      [CHR 0xE2, CHR 0x80, CHR 0xA8], [CHR 0xE2, CHR 0x80, CHR 0xA9],
      [CHR 0xE2, CHR 0x80, CHR 0xAF], [CHR 0xE2, CHR 0x81, CHR 0x9F],
      [CHR 0xE3, CHR 0x80, CHR 0x80]]"

text \<open>The number of bytes of the white space rune that the string starts with, 0 if none.\<close>

lemma HasPrefix_nonempty: "HasPrefix s w \<Longrightarrow> w \<noteq> [] \<Longrightarrow> s \<noteq> []"
  by (cases s; cases w) simp_all

definition leadingSpace :: "string list \<Rightarrow> string \<Rightarrow> nat" where
  "leadingSpace ws s = (case find (\<lambda>w. HasPrefix s w) ws of None \<Rightarrow> 0 | Some w \<Rightarrow> length w)"

function trimLeftWith :: "string list \<Rightarrow> string \<Rightarrow> string" where
  "trimLeftWith ws s =
     (if leadingSpace ws s = 0 then s else trimLeftWith ws (drop (leadingSpace ws s) s))"
  by pat_completeness auto
termination
proof (relation "measure (\<lambda>(ws, s). length s)")
  fix ws :: "string list" and s :: string
  assume pos: "leadingSpace ws s \<noteq> 0"
  then obtain w where w: "find (\<lambda>w. HasPrefix s w) ws = Some w" and len: "leadingSpace ws s = length w"
    by (auto simp: leadingSpace_def split: option.splits)
  from w have "HasPrefix s w"
    by (auto simp: find_Some_iff)
  with pos len have "s \<noteq> []"
    using HasPrefix_nonempty [of s w] by auto
  with pos show "((ws, drop (leadingSpace ws s) s), (ws, s)) \<in> measure (\<lambda>(ws, s). length s)"
    by simp
qed simp

definition TrimSpace :: "string \<Rightarrow> string" where
  "TrimSpace s =
     rev (trimLeftWith (map rev unicodeSpaces) (rev (trimLeftWith unicodeSpaces s)))"

section \<open>The precompiled regular expressions\<close>

text \<open>
  Go's \<open>regexp\<close> finds matches from the left, without overlap, each match the one a
  backtracking search prefers (greedy for \<open>*\<close> and \<open>+\<close>, shortest for \<open>*?\<close>). None of
  the expressions below matches the empty string. Each expression is written as the scan
  it stands for: \<open>ReplaceAllString\<close> copies the bytes outside matches and writes the
  replacement for each match, \<open>FindAllString\<close> is used for the number of matches only,
  \<open>MatchString\<close> says whether there is a match.
\<close>

lemma length_dropWhile_less: "length (dropWhile P xs) < Suc (length xs)"
  by (rule le_imp_less_Suc) (rule length_dropWhile_le)

lemma length_dropWhile_drop_less: "length (dropWhile P (drop n xs)) < Suc (length xs)"
  by (rule le_imp_less_Suc) (rule order_trans [OF length_dropWhile_le], simp)

text \<open>\<open>reLineComments.ReplaceAllString(sql, " ")\<close> with \<open>reLineComments = --[^\n]*\<close>.\<close>

function replaceLineComments :: "string \<Rightarrow> string" where
  "replaceLineComments [] = []"
| "replaceLineComments (c # cs) =
     (if HasPrefix (c # cs) ''--''
      then CHR 0x20 # replaceLineComments (dropWhile (\<lambda>x. x \<noteq> CHR 0x0A) (drop 1 cs))
      else c # replaceLineComments cs)"
  by pat_completeness auto
termination
  by (relation "measure length") (simp_all add: length_dropWhile_drop_less)

text \<open>
  \<open>reBlockComments = /\*.*?\*/\<close>. After an opening \<open>/*\<close>, \<open>blockCommentEnd\<close> looks
  for the nearest closing \<open>*/\<close> and returns the text behind it. The dot does not match a
  newline (the expression has no \<open>s\<close> flag), so the search gives up at a newline.
\<close>

fun blockCommentEnd :: "string \<Rightarrow> string option" where
  "blockCommentEnd [] = None"
| "blockCommentEnd (c # cs) =
     (if HasPrefix (c # cs) ''*/'' then Some (drop 1 cs)
      else if c = CHR 0x0A then None
      else blockCommentEnd cs)"

lemma blockCommentEnd_length: "blockCommentEnd s = Some r \<Longrightarrow> length r < length s"
  by (induction s) (auto split: if_splits)

text \<open>\<open>reBlockComments.ReplaceAllString(sql, " ")\<close>.\<close>

function replaceBlockComments :: "string \<Rightarrow> string" where
  "replaceBlockComments [] = []"
| "replaceBlockComments (c # cs) =
     (if HasPrefix (c # cs) ''/*''
      then (case blockCommentEnd (drop 1 cs) of
              Some r \<Rightarrow> CHR 0x20 # replaceBlockComments r
            | None \<Rightarrow> c # replaceBlockComments cs)
      else c # replaceBlockComments cs)"
  by pat_completeness auto
termination
proof (relation "measure length")
  fix c :: char and cs r :: string
  assume "blockCommentEnd (drop 1 cs) = Some r"
  then have "length r < length (drop 1 cs)"
    by (rule blockCommentEnd_length)
  then show "(r, c # cs) \<in> measure length"
    by simp
qed simp_all

text \<open>\<open>reMultipleSpaces.ReplaceAllString(sql, " ")\<close> with \<open>reMultipleSpaces = \s+\<close>.\<close>

function replaceMultipleSpaces :: "string \<Rightarrow> string" where
  "replaceMultipleSpaces [] = []"
| "replaceMultipleSpaces (c # cs) =
     (if isSpaceRE c then CHR 0x20 # replaceMultipleSpaces (dropWhile isSpaceRE cs)
      else c # replaceMultipleSpaces cs)"
  by pat_completeness auto
termination
  by (relation "measure length") (simp_all add: length_dropWhile_less)

text \<open>
  \<open>reParensAndCommas.ReplaceAllString(sql, "$1")\<close> with
  \<open>reParensAndCommas = \s*([(),;])\s*\<close>: a match starts at one of the four characters,
  or at white space that runs up to one; it takes the white space behind the character
  too, and only the character is written back.
\<close>

definition isParenOrComma :: "char \<Rightarrow> bool" where
  "isParenOrComma c = (c = CHR ''('' \<or> c = CHR '')'' \<or> c = CHR '','' \<or> c = CHR '';'')"

function replaceParensAndCommas :: "string \<Rightarrow> string" where
  "replaceParensAndCommas [] = []"
| "replaceParensAndCommas (c # cs) =
     (if isParenOrComma c then c # replaceParensAndCommas (dropWhile isSpaceRE cs)
      else if isSpaceRE c then
        (case dropWhile isSpaceRE cs of
           [] \<Rightarrow> c # replaceParensAndCommas cs
         | p # r \<Rightarrow>
             if isParenOrComma p then p # replaceParensAndCommas (dropWhile isSpaceRE r)
             else c # replaceParensAndCommas cs)
      else c # replaceParensAndCommas cs)"
  by pat_completeness auto
termination
proof (relation "measure length")
  fix c p :: char and cs r :: string
  assume "dropWhile isSpaceRE cs = p # r"
  then have "length (p # r) \<le> length cs"
    by (metis length_dropWhile_le)
  moreover have "length (dropWhile isSpaceRE r) \<le> length r"
    by (rule length_dropWhile_le)
  ultimately show "(dropWhile isSpaceRE r, c # cs) \<in> measure length"
    by simp
qed (simp_all add: length_dropWhile_less)

text \<open>
  The three literal expressions \<open>'[^']*'\<close>, \<open>"[^"]*"\<close> and \<open>\[[^\]]*\]\<close> have one shape:
  an opening delimiter, any bytes but the closing delimiter, the closing delimiter.
  \<open>ReplaceAllString\<close> writes the two delimiters for each match. An opening delimiter that
  is never closed is copied.
\<close>

function replaceDelimited :: "char \<Rightarrow> char \<Rightarrow> string \<Rightarrow> string" where
  "replaceDelimited l r [] = []"
| "replaceDelimited l r (c # cs) =
     (if c = l then
        (case dropWhile (\<lambda>x. x \<noteq> r) cs of
           [] \<Rightarrow> c # replaceDelimited l r cs
         | _ # rest \<Rightarrow> l # r # replaceDelimited l r rest)
      else c # replaceDelimited l r cs)"
  by pat_completeness auto
termination
proof (relation "measure (\<lambda>(l, r, s). length s)")
  fix l r c x :: char and cs rest :: string
  assume "dropWhile (\<lambda>x. x \<noteq> r) cs = x # rest"
  then have "length (x # rest) \<le> length cs"
    by (metis length_dropWhile_le)
  then show "((l, r, rest), (l, r, c # cs)) \<in> measure (\<lambda>(l, r, s). length s)"
    by simp
qed simp_all

text \<open>
  A compiled keyword pattern \<open>\b<keyword>\b\<close>. The keywords of the validator are made of
  letters and underscores, so the expression is the keyword itself between two word
  boundaries. \<open>\b\<close> holds between two positions when exactly one of the bytes next to it
  is a word character; the ends of the text count as no word character.
\<close>

datatype Regexp = WordBounded string

definition wordBoundary :: "char option \<Rightarrow> char option \<Rightarrow> bool" where
  "wordBoundary pre post =
     ((case pre of None \<Rightarrow> False | Some c \<Rightarrow> isWordChar c)
       \<noteq> (case post of None \<Rightarrow> False | Some c \<Rightarrow> isWordChar c))"

definition firstByte :: "string \<Rightarrow> char option" where
  "firstByte s = (case s of [] \<Rightarrow> None | c # _ \<Rightarrow> Some c)"

text \<open>The pattern matches at the start of \<open>s\<close>, where \<open>pre\<close> is the byte in front of \<open>s\<close>.\<close>

definition keywordHere :: "char option \<Rightarrow> string \<Rightarrow> string \<Rightarrow> bool" where
  "keywordHere pre kw s =
     (HasPrefix s kw \<and> wordBoundary pre (firstByte s)
      \<and> wordBoundary (if kw = [] then pre else Some (last kw)) (firstByte (drop (length kw) s)))"

fun keywordFrom :: "char option \<Rightarrow> string \<Rightarrow> string \<Rightarrow> bool" where
  "keywordFrom pre kw [] = keywordHere pre kw []"
| "keywordFrom pre kw (c # cs) =
     (if keywordHere pre kw (c # cs) then True else keywordFrom (Some c) kw cs)"

fun MatchString :: "Regexp \<Rightarrow> string \<Rightarrow> bool" where
  "MatchString (WordBounded kw) s = keywordFrom None kw s"

text \<open>
  \<open>reSelectInto.MatchString\<close> with \<open>reSelectInto = SELECT\s+.*\s+INTO\s+\<close>. Behind
  \<open>SELECT\<close> the match is in one of three states: in the first run of white space, in the
  bytes of \<open>.*\<close> (no newline), or in the second run of white space, from where
  \<open>INTO\<close> and one white space byte end the search.
\<close>

fun intoAfterSpace :: "string \<Rightarrow> bool" where
  "intoAfterSpace [] = False"
| "intoAfterSpace (c # cs) =
     (if HasPrefix (c # cs) ''INTO'' \<and> (case drop 3 cs of [] \<Rightarrow> False | w # _ \<Rightarrow> isSpaceRE w)
      then True
      else isSpaceRE c \<and> intoAfterSpace cs)"

fun intoAfterAny :: "string \<Rightarrow> bool" where
  "intoAfterAny [] = False"
| "intoAfterAny (c # cs) =
     (if isSpaceRE c \<and> intoAfterSpace cs then True
      else c \<noteq> CHR 0x0A \<and> intoAfterAny cs)"

fun intoAfterSelect :: "string \<Rightarrow> bool" where
  "intoAfterSelect [] = False"
| "intoAfterSelect (c # cs) =
     (if isSpaceRE c \<and> intoAfterSpace cs then True
      else if c \<noteq> CHR 0x0A \<and> intoAfterAny cs then True
      else isSpaceRE c \<and> intoAfterSelect cs)"

fun matchSelectInto :: "string \<Rightarrow> bool" where
  "matchSelectInto [] = False"
| "matchSelectInto (c # cs) =
     (if HasPrefix (c # cs) ''SELECT''
         \<and> (case drop 5 cs of [] \<Rightarrow> False | w # r \<Rightarrow> isSpaceRE w \<and> intoAfterSelect r)
      then True
      else matchSelectInto cs)"

text \<open>The number of matches of \<open>reHexPattern = 0X[0-9A-F]+\<close>.\<close>

function countHexPattern :: "string \<Rightarrow> nat" where
  "countHexPattern [] = 0"
| "countHexPattern (c # cs) =
     (if HasPrefix (c # cs) ''0X'' \<and> (case drop 1 cs of [] \<Rightarrow> False | h # _ \<Rightarrow> isHexUpper h)
      then Suc (countHexPattern (dropWhile isHexUpper (drop 1 cs)))
      else countHexPattern cs)"
  by pat_completeness auto
termination
  by (relation "measure length") (simp_all add: length_dropWhile_drop_less)

text \<open>
  The number of matches of \<open>reCharNCharPattern = (CHAR|NCHAR)\s*\(\<close>. \<open>charCallEnd\<close>
  returns the text behind a match that starts at the head of its argument.
\<close>

definition openParenAfter :: "string \<Rightarrow> string option" where
  "openParenAfter s =
     (case dropWhile isSpaceRE s of
        [] \<Rightarrow> None
      | p # r \<Rightarrow> if p = CHR ''('' then Some r else None)"

definition charCallEnd :: "string \<Rightarrow> string option" where
  "charCallEnd s =
     (if HasPrefix s ''CHAR'' then openParenAfter (drop 4 s)
      else if HasPrefix s ''NCHAR'' then openParenAfter (drop 5 s)
      else None)"

lemma openParenAfter_length: "openParenAfter s = Some r \<Longrightarrow> length r < length s"
proof -
  assume a: "openParenAfter s = Some r"
  then obtain p where "dropWhile isSpaceRE s = p # r"
    by (auto simp: openParenAfter_def split: list.splits if_splits)
  then have "length (p # r) \<le> length s"
    by (metis length_dropWhile_le)
  then show ?thesis by simp
qed

lemma charCallEnd_length: "charCallEnd s = Some r \<Longrightarrow> length r < length s"
  by (auto simp: charCallEnd_def split: if_splits dest!: openParenAfter_length)

function countCharNCharPattern :: "string \<Rightarrow> nat" where
  "countCharNCharPattern [] = 0"
| "countCharNCharPattern (c # cs) =
     (case charCallEnd (c # cs) of
        Some r \<Rightarrow> Suc (countCharNCharPattern r)
      | None \<Rightarrow> countCharNCharPattern cs)"
  by pat_completeness auto
termination
  by (relation "measure length") (auto dest: charCallEnd_length)

section \<open>The query validator\<close>

text \<open>Query validation constants.\<close>

definition MaxQueryLength :: nat where "MaxQueryLength = 10000"
definition MaxSubqueryCount :: nat where "MaxSubqueryCount = 10"
definition MaxUnionCount :: nat where "MaxUnionCount = 5"
definition MaxParenthesesDepth :: int where "MaxParenthesesDepth = 20"
definition MaxHexEncodingCount :: nat where "MaxHexEncodingCount = 3"
definition MaxCharFunctionCount :: nat where "MaxCharFunctionCount = 10"

record SQLValidator =
  query :: string
  normalized :: string

text \<open>
  \<open>normalizeSQL\<close>: line comments, block comments, runs of white space, white space
  around parentheses, commas and semicolons, then upper case and trimming.
\<close>

definition normalizeSQL :: "(string \<Rightarrow> string) \<Rightarrow> string \<Rightarrow> string" where
  "normalizeSQL mapUpper sql =
     TrimSpace (ToUpper mapUpper
       (replaceParensAndCommas (replaceMultipleSpaces
         (replaceBlockComments (replaceLineComments sql)))))"

definition NewSQLValidator :: "(string \<Rightarrow> string) \<Rightarrow> string \<Rightarrow> SQLValidator" where
  "NewSQLValidator mapUpper q = \<lparr>query = q, normalized = normalizeSQL mapUpper q\<rparr>"

text \<open>\<open>removeStringLiterals\<close>: single quotes, then double quotes, then square brackets.\<close>

definition removeStringLiterals :: "string \<Rightarrow> string" where
  "removeStringLiterals sql =
     replaceDelimited (CHR ''['') (CHR '']'')
       (replaceDelimited (CHR 0x22) (CHR 0x22)
         (replaceDelimited (CHR 0x27) (CHR 0x27) sql))"

text \<open>
  The errors \<open>Validate\<close> returns, one constructor for each message:
  \<^item> \<open>EmptyQuery\<close>: "empty query";
  \<^item> \<open>QueryTooLong\<close>: "query too long (maximum 10000 characters)";
  \<^item> \<open>NotReadOnly\<close>: "Only SELECT or WITH queries are allowed";
  \<^item> \<open>CommandNotAllowed cmd\<close>: "command not allowed: cmd";
  \<^item> \<open>TransactionCommand cmd\<close>: "Transaction commands are not allowed: cmd";
  \<^item> \<open>AdministrativeCommand cmd\<close>: "administrative command not allowed: cmd";
  \<^item> \<open>SecurityCommand cmd\<close>: "security command not allowed: cmd";
  \<^item> \<open>DangerousFunction fn\<close>: "dangerous function not permitted: fn";
  \<^item> \<open>MultipleStatements\<close>: "multiple commands are not allowed", from the scan of the
    raw query;
  \<^item> \<open>SelectInto\<close>: "SELECT INTO is not allowed";
  \<^item> \<open>StackedQueries\<close>: "Multiple commands are not allowed", from the count of
    semicolons in the text without literals;
  \<^item> \<open>TooManyUnions\<close>: "too many UNION clauses (maximum 5)";
  \<^item> \<open>SuspiciousControlChar\<close>: "suspicious control character detected";
  \<^item> \<open>ExcessiveEncoding\<close>: "excessive use of hexadecimal encoding";
  \<^item> \<open>ExcessiveObfuscation\<close>: "excessive use of CHAR/NCHAR (possible obfuscation)";
  \<^item> \<open>TimingFunction fn\<close>: "time function not allowed: fn";
  \<^item> \<open>TooManySubqueries\<close>: "too many subqueries (maximum 10)";
  \<^item> \<open>UnbalancedParentheses\<close>: "unbalanced parentheses";
  \<^item> \<open>ExcessiveNesting\<close>: "parenthesis depth too large (maximum 20)".
  A Go \<open>error\<close> result is an \<open>error option\<close>: \<open>None\<close> is \<open>nil\<close>, the query is accepted.
\<close>

datatype error =
    EmptyQuery
  | QueryTooLong
  | NotReadOnly
  | CommandNotAllowed string
  | TransactionCommand string
  | AdministrativeCommand string
  | SecurityCommand string
  | DangerousFunction string
  | MultipleStatements
  | SelectInto
  | StackedQueries
  | TooManyUnions
  | SuspiciousControlChar
  | ExcessiveEncoding
  | ExcessiveObfuscation
  | TimingFunction string
  | TooManySubqueries
  | UnbalancedParentheses
  | ExcessiveNesting

text \<open>
  The package variable \<open>keywordPatterns\<close>, a map from keywords to compiled patterns, is
  the only state the validator reads and writes. Every function that reaches it takes
  the map and returns it.
\<close>

type_synonym keywordPatterns = "string \<rightharpoonup> Regexp"

text \<open>\<open>regexp.MustCompile(`\b` + keyword + `\b`)\<close>.\<close>

definition compileKeyword :: "string \<Rightarrow> Regexp" where
  "compileKeyword keyword = WordBounded keyword"

definition containsKeyword :: "string \<Rightarrow> string \<Rightarrow> keywordPatterns \<Rightarrow> bool \<times> keywordPatterns" where
  "containsKeyword sql keyword kp =
     (case kp keyword of
        Some pattern \<Rightarrow> (MatchString pattern sql, kp)
      | None \<Rightarrow>
          (let pattern = compileKeyword keyword
           in (MatchString pattern sql, kp(keyword \<mapsto> pattern))))"

text \<open>
  The loop \<open>for _, cmd := range cmds { if containsKeyword(sql, cmd) { return ... cmd } }\<close>:
  the first keyword of the list that the text contains, if any.
\<close>

fun firstKeyword :: "string \<Rightarrow> string list \<Rightarrow> keywordPatterns \<Rightarrow> string option \<times> keywordPatterns" where
  "firstKeyword sql [] kp = (None, kp)"
| "firstKeyword sql (cmd # cmds) kp =
     (case containsKeyword sql cmd kp of
        (found, kp') \<Rightarrow> if found then (Some cmd, kp') else firstKeyword sql cmds kp')"

text \<open>The same loop with \<open>strings.Contains\<close>.\<close>

definition firstSubstring :: "string \<Rightarrow> string list \<Rightarrow> string option" where
  "firstSubstring sql cmds = find (\<lambda>cmd. Contains sql cmd) cmds"

definition dangerousDML :: "string list" where
  "dangerousDML = [''INSERT'', ''UPDATE'', ''DELETE'', ''TRUNCATE'', ''MERGE'']"

definition dangerousDDL :: "string list" where
  "dangerousDDL = [''DROP'', ''CREATE'', ''ALTER'', ''RENAME'']"

definition dangerousExec :: "string list" where
  "dangerousExec = [''EXEC'', ''EXECUTE'', ''SP_EXECUTESQL'', ''XP_CMDSHELL'']"

definition transactionCmds :: "string list" where
  "transactionCmds =
     [''BEGIN TRANSACTION'', ''BEGIN TRAN'', ''COMMIT'', ''ROLLBACK'', ''SAVE TRANSACTION'']"

definition backupCmds :: "string list" where
  "backupCmds = [''BACKUP'', ''RESTORE'', ''DUMP'']"

definition adminCmds :: "string list" where
  "adminCmds = [''SHUTDOWN'', ''RECONFIGURE'', ''DBCC'', ''KILL'']"

definition securityCmds :: "string list" where
  "securityCmds = [''GRANT'', ''REVOKE'', ''DENY'']"

definition dangerousFunctions :: "string list" where
  "dangerousFunctions =
     [''XP_'', ''SP_CONFIGURE'', ''SP_ADDSRVROLEMEMBER'', ''SP_ADDLOGIN'',
      ''OPENROWSET'', ''OPENDATASOURCE'', ''OPENQUERY'',
      ''BULK INSERT'', ''BCP'']"

definition timingFunctions :: "string list" where
  "timingFunctions = [''WAITFOR'', ''DELAY'', ''SLEEP'', ''BENCHMARK'']"

text \<open>
  \<open>validateMultipleStatements\<close>: the scan of the raw query with its two flags. At a
  semicolon outside a string, \<open>cs\<close> is \<open>v.query[i+1:]\<close>, and \<open>i < len(v.query)-1\<close> says
  that it is not empty. The result \<open>True\<close> is the error.
\<close>

fun scanStatements :: "bool \<Rightarrow> bool \<Rightarrow> string \<Rightarrow> bool" where
  "scanStatements inString escapeNext [] = False"
| "scanStatements inString escapeNext (c # cs) =
     (if escapeNext then scanStatements inString False cs
      else if c = CHR 0x5C then scanStatements inString True cs
      else if c = CHR 0x27 then scanStatements (\<not> inString) False cs
      else if \<not> inString \<and> c = CHR '';'' \<and> cs \<noteq> [] \<and> TrimSpace cs \<noteq> [] then True
      else scanStatements inString False cs)"

definition validateMultipleStatements :: "SQLValidator \<Rightarrow> error option" where
  "validateMultipleStatements v =
     (if scanStatements False False (query v) then Some MultipleStatements else None)"

definition validateNoIntoClause :: "string \<Rightarrow> error option" where
  "validateNoIntoClause sql = (if matchSelectInto sql then Some SelectInto else None)"

definition validateUnionUsage :: "string \<Rightarrow> error option" where
  "validateUnionUsage sql =
     (if Count sql (CHR ''U'') ''NION'' > MaxUnionCount then Some TooManyUnions else None)"

definition isControlChar :: "char \<Rightarrow> bool" where
  "isControlChar c =
     ((of_char c :: nat) < 32 \<and> c \<noteq> CHR 0x0A \<and> c \<noteq> CHR 0x0D \<and> c \<noteq> CHR 0x09)"

definition validateEncoding :: "SQLValidator \<Rightarrow> error option" where
  "validateEncoding v =
     (if list_ex isControlChar (query v) then Some SuspiciousControlChar
      else if Contains (normalized v) ''0X''
              \<and> countHexPattern (normalized v) > MaxHexEncodingCount
      then Some ExcessiveEncoding
      else if countCharNCharPattern (normalized v) > MaxCharFunctionCount
      then Some ExcessiveObfuscation
      else None)"

definition validateNoTimingAttacks :: "string \<Rightarrow> keywordPatterns \<Rightarrow> error option \<times> keywordPatterns" where
  "validateNoTimingAttacks sql kp =
     (case firstKeyword sql timingFunctions kp of
        (Some fn, kp') \<Rightarrow> (Some (TimingFunction fn), kp')
      | (None, kp') \<Rightarrow> (None, kp'))"

text \<open>
  \<open>validateParenthesesDepth\<close>: the loop over the raw query with the running depth and
  the largest depth seen. Both are Go \<open>int\<close>s; they stay within the length of the query,
  so they are modelled as integers.
\<close>

fun scanParentheses :: "int \<Rightarrow> int \<Rightarrow> string \<Rightarrow> int \<times> int" where
  "scanParentheses depth maxDepth [] = (depth, maxDepth)"
| "scanParentheses depth maxDepth (c # cs) =
     (if c = CHR ''('' then
        scanParentheses (depth + 1) (if depth + 1 > maxDepth then depth + 1 else maxDepth) cs
      else if c = CHR '')'' then scanParentheses (depth - 1) maxDepth cs
      else scanParentheses depth maxDepth cs)"

definition validateParenthesesDepth :: "SQLValidator \<Rightarrow> error option" where
  "validateParenthesesDepth v =
     (case scanParentheses 0 0 (query v) of
        (depth, maxDepth) \<Rightarrow>
          if depth \<noteq> 0 then Some UnbalancedParentheses
          else if maxDepth > MaxParenthesesDepth then Some ExcessiveNesting
          else None)"

text \<open>
  \<open>Validate\<close>, split where the source's numbered steps fall: steps 1 to 3 and the
  keyword lists of steps 5 to 12 (\<open>Validate\<close>), and steps 13 to 20 (\<open>validateRest\<close>).
\<close>

definition validateRest :: "SQLValidator \<Rightarrow> string \<Rightarrow> keywordPatterns \<Rightarrow> error option \<times> keywordPatterns" where
  "validateRest v sqlWithoutLiterals kp =
     (case validateMultipleStatements v of
        Some err \<Rightarrow> (Some err, kp)
      | None \<Rightarrow>
     (case validateNoIntoClause sqlWithoutLiterals of
        Some err \<Rightarrow> (Some err, kp)
      | None \<Rightarrow>
     (if Count sqlWithoutLiterals (CHR '';'') [] > 0 then (Some StackedQueries, kp)
      else
     (case validateUnionUsage sqlWithoutLiterals of
        Some err \<Rightarrow> (Some err, kp)
      | None \<Rightarrow>
     (case validateEncoding v of
        Some err \<Rightarrow> (Some err, kp)
      | None \<Rightarrow>
     (case validateNoTimingAttacks sqlWithoutLiterals kp of
        (Some err, kp') \<Rightarrow> (Some err, kp')
      | (None, kp') \<Rightarrow>
     (if Count sqlWithoutLiterals (CHR ''S'') ''ELECT'' > MaxSubqueryCount
      then (Some TooManySubqueries, kp')
      else (validateParenthesesDepth v, kp'))))))))"

definition Validate :: "SQLValidator \<Rightarrow> keywordPatterns \<Rightarrow> error option \<times> keywordPatterns" where
  "Validate v kp =
     (if TrimSpace (query v) = [] then (Some EmptyQuery, kp)
      else if length (query v) > MaxQueryLength then (Some QueryTooLong, kp)
      else if \<not> HasPrefix (normalized v) ''SELECT'' \<and> \<not> HasPrefix (normalized v) ''WITH''
      then (Some NotReadOnly, kp)
      else
     (let sqlWithoutLiterals = removeStringLiterals (normalized v) in
     (case firstKeyword sqlWithoutLiterals dangerousDML kp of
        (Some cmd, kp1) \<Rightarrow> (Some (CommandNotAllowed cmd), kp1)
      | (None, kp1) \<Rightarrow>
     (case firstKeyword sqlWithoutLiterals dangerousDDL kp1 of
        (Some cmd, kp2) \<Rightarrow> (Some (CommandNotAllowed cmd), kp2)
      | (None, kp2) \<Rightarrow>
     (case firstKeyword sqlWithoutLiterals dangerousExec kp2 of
        (Some cmd, kp3) \<Rightarrow> (Some (CommandNotAllowed cmd), kp3)
      | (None, kp3) \<Rightarrow>
     (case firstSubstring sqlWithoutLiterals transactionCmds of
        Some cmd \<Rightarrow> (Some (TransactionCommand cmd), kp3)
      | None \<Rightarrow>
     (case firstKeyword sqlWithoutLiterals backupCmds kp3 of
        (Some cmd, kp4) \<Rightarrow> (Some (CommandNotAllowed cmd), kp4)
      | (None, kp4) \<Rightarrow>
     (case firstKeyword sqlWithoutLiterals adminCmds kp4 of
        (Some cmd, kp5) \<Rightarrow> (Some (AdministrativeCommand cmd), kp5)
      | (None, kp5) \<Rightarrow>
     (case firstKeyword sqlWithoutLiterals securityCmds kp5 of
        (Some cmd, kp6) \<Rightarrow> (Some (SecurityCommand cmd), kp6)
      | (None, kp6) \<Rightarrow>
     (case firstSubstring sqlWithoutLiterals dangerousFunctions of
        Some fn \<Rightarrow> (Some (DangerousFunction fn), kp6)
      | None \<Rightarrow> validateRest v sqlWithoutLiterals kp6))))))))))"

section \<open>The keyword-pattern table\<close>

text \<open>
  A run of the process: the table starts empty (\<open>make(map[string]*regexp.Regexp)\<close>) and
  each validation continues with the table the one before it left.
\<close>

fun validateAll :: "(string \<Rightarrow> string) \<Rightarrow> string list \<Rightarrow> keywordPatterns \<Rightarrow> keywordPatterns" where
  "validateAll mapUpper [] kp = kp"
| "validateAll mapUpper (q # qs) kp =
     validateAll mapUpper qs (snd (Validate (NewSQLValidator mapUpper q) kp))"

text \<open>The keywords that \<open>Validate\<close> hands to \<open>containsKeyword\<close>.\<close>

definition allKeywords :: "string list" where
  "allKeywords =
     dangerousDML @ dangerousDDL @ dangerousExec @ backupCmds @ adminCmds @ securityCmds
     @ timingFunctions"

text \<open>
  The table is well formed when every entry holds the pattern compiled from its key;
  \<open>containsKeyword\<close> writes no other entries.
\<close>

definition wellFormed :: "keywordPatterns \<Rightarrow> bool" where
  "wellFormed kp = (\<forall>k p. kp k = Some p \<longrightarrow> p = compileKeyword k)"

text \<open>
  \<open>grownBy K kp kp'\<close>: the table \<open>kp'\<close> is \<open>kp\<close> with entries added for keys of \<open>K\<close>
  that \<open>kp\<close> did not have, each with the pattern compiled from the key.
\<close>

definition grownBy :: "string set \<Rightarrow> keywordPatterns \<Rightarrow> keywordPatterns \<Rightarrow> bool" where
  "grownBy K kp kp' =
     (\<forall>k. kp' k = kp k \<or> (kp k = None \<and> k \<in> K \<and> kp' k = Some (compileKeyword k)))"

text \<open>What \<open>containsKeyword\<close> answers on a well-formed table.\<close>

definition keywordIn :: "string \<Rightarrow> string \<Rightarrow> bool" where
  "keywordIn sql keyword = MatchString (compileKeyword keyword) sql"

lemma grownBy_refl: "grownBy K kp kp"
  by (simp add: grownBy_def)

lemma grownBy_trans: "grownBy K a b \<Longrightarrow> grownBy K' b c \<Longrightarrow> grownBy (K \<union> K') a c"
  unfolding grownBy_def by (metis UnCI option.distinct(1))

lemma grownBy_mono: "grownBy K a b \<Longrightarrow> K \<subseteq> K' \<Longrightarrow> grownBy K' a b"
  unfolding grownBy_def by blast

lemma grownBy_wellFormed: "wellFormed a \<Longrightarrow> grownBy K a b \<Longrightarrow> wellFormed b"
proof -
  assume wf: "wellFormed a" and g: "grownBy K a b"
  have "p = compileKeyword k" if "b k = Some p" for k p
  proof -
    from g have "b k = a k \<or> b k = Some (compileKeyword k)"
      by (auto simp: grownBy_def)
    with that wf show ?thesis
      by (auto simp: wellFormed_def)
  qed
  then show ?thesis
    by (simp add: wellFormed_def)
qed

lemma containsKeyword_fst:
  "wellFormed kp \<Longrightarrow> fst (containsKeyword sql k kp) = keywordIn sql k"
  by (auto simp: containsKeyword_def wellFormed_def keywordIn_def Let_def split: option.splits)

lemma containsKeyword_snd: "grownBy {k} kp (snd (containsKeyword sql k kp))"
  by (auto simp: containsKeyword_def grownBy_def Let_def split: option.splits)

lemma firstKeyword_snd: "grownBy (set ks) kp (snd (firstKeyword sql ks kp))"
proof (induction ks arbitrary: kp)
  case Nil
  show ?case by (simp add: grownBy_refl)
next
  case (Cons k ks)
  obtain found kp' where ck: "containsKeyword sql k kp = (found, kp')"
    by (cases "containsKeyword sql k kp")
  then have g: "grownBy {k} kp kp'"
    using containsKeyword_snd [of k kp sql] by simp
  show ?case
  proof (cases found)
    case True
    with ck g show ?thesis
      by (auto intro: grownBy_mono)
  next
    case False
    from grownBy_trans [OF g Cons.IH [of kp']] False ck show ?thesis
      by simp
  qed
qed

lemma firstKeyword_fst:
  "wellFormed kp \<Longrightarrow> fst (firstKeyword sql ks kp) = find (keywordIn sql) ks"
proof (induction ks arbitrary: kp)
  case Nil
  show ?case by simp
next
  case (Cons k ks)
  obtain found kp' where ck: "containsKeyword sql k kp = (found, kp')"
    by (cases "containsKeyword sql k kp")
  with Cons.prems have f: "found = keywordIn sql k"
    using containsKeyword_fst [of kp sql k] by simp
  from ck have "grownBy {k} kp kp'"
    using containsKeyword_snd [of k kp sql] by simp
  with Cons.prems have "wellFormed kp'"
    by (rule grownBy_wellFormed)
  with Cons.IH [of kp'] ck f show ?case
    by simp
qed

lemma firstKeyword_eq:
  assumes "wellFormed kp"
  obtains kp' where "firstKeyword sql ks kp = (find (keywordIn sql) ks, kp')"
    and "wellFormed kp'"
proof -
  have "firstKeyword sql ks kp = (find (keywordIn sql) ks, snd (firstKeyword sql ks kp))"
    using firstKeyword_fst [OF assms, of sql ks] by (metis prod.collapse)
  moreover have "wellFormed (snd (firstKeyword sql ks kp))"
    using assms firstKeyword_snd by (rule grownBy_wellFormed)
  ultimately show thesis ..
qed

text \<open>On well-formed tables the outcome of \<open>Validate\<close> does not depend on the table.\<close>

lemma Validate_fst_wellFormed:
  assumes "wellFormed kp" and "wellFormed kq"
  shows "fst (Validate v kp) = fst (Validate v kq)"
proof -
  define sql where "sql = removeStringLiterals (normalized v)"
  obtain kp1 where p1: "firstKeyword sql dangerousDML kp = (find (keywordIn sql) dangerousDML, kp1)" and w1: "wellFormed kp1"
    using assms(1) by (rule firstKeyword_eq)
  obtain kp2 where p2: "firstKeyword sql dangerousDDL kp1 = (find (keywordIn sql) dangerousDDL, kp2)" and w2: "wellFormed kp2"
    using w1 by (rule firstKeyword_eq)
  obtain kp3 where p3: "firstKeyword sql dangerousExec kp2 = (find (keywordIn sql) dangerousExec, kp3)" and w3: "wellFormed kp3"
    using w2 by (rule firstKeyword_eq)
  obtain kp4 where p4: "firstKeyword sql backupCmds kp3 = (find (keywordIn sql) backupCmds, kp4)" and w4: "wellFormed kp4"
    using w3 by (rule firstKeyword_eq)
  obtain kp5 where p5: "firstKeyword sql adminCmds kp4 = (find (keywordIn sql) adminCmds, kp5)" and w5: "wellFormed kp5"
    using w4 by (rule firstKeyword_eq)
  obtain kp6 where p6: "firstKeyword sql securityCmds kp5 = (find (keywordIn sql) securityCmds, kp6)" and w6: "wellFormed kp6"
    using w5 by (rule firstKeyword_eq)
  obtain kp7 where p7: "firstKeyword sql timingFunctions kp6 = (find (keywordIn sql) timingFunctions, kp7)" and w7: "wellFormed kp7"
    using w6 by (rule firstKeyword_eq)
  obtain kq1 where q1: "firstKeyword sql dangerousDML kq = (find (keywordIn sql) dangerousDML, kq1)" and v1: "wellFormed kq1"
    using assms(2) by (rule firstKeyword_eq)
  obtain kq2 where q2: "firstKeyword sql dangerousDDL kq1 = (find (keywordIn sql) dangerousDDL, kq2)" and v2: "wellFormed kq2"
    using v1 by (rule firstKeyword_eq)
  obtain kq3 where q3: "firstKeyword sql dangerousExec kq2 = (find (keywordIn sql) dangerousExec, kq3)" and v3: "wellFormed kq3"
    using v2 by (rule firstKeyword_eq)
  obtain kq4 where q4: "firstKeyword sql backupCmds kq3 = (find (keywordIn sql) backupCmds, kq4)" and v4: "wellFormed kq4"
    using v3 by (rule firstKeyword_eq)
  obtain kq5 where q5: "firstKeyword sql adminCmds kq4 = (find (keywordIn sql) adminCmds, kq5)" and v5: "wellFormed kq5"
    using v4 by (rule firstKeyword_eq)
  obtain kq6 where q6: "firstKeyword sql securityCmds kq5 = (find (keywordIn sql) securityCmds, kq6)" and v6: "wellFormed kq6"
    using v5 by (rule firstKeyword_eq)
  obtain kq7 where q7: "firstKeyword sql timingFunctions kq6 = (find (keywordIn sql) timingFunctions, kq7)" and v7: "wellFormed kq7"
    using v6 by (rule firstKeyword_eq)
  show ?thesis
    unfolding Validate_def validateRest_def validateNoTimingAttacks_def Let_def sql_def [symmetric]
    by (simp add: p1 p2 p3 p4 p5 p6 p7 q1 q2 q3 q4 q5 q6 q7 split: option.splits)
qed

text \<open>\<open>Validate\<close> only adds entries for its own keywords to the table.\<close>

lemma Validate_snd_grownBy: "grownBy (set allKeywords) kp (snd (Validate v kp))"
proof -
  define sql where "sql = removeStringLiterals (normalized v)"
  define K where "K = set allKeywords"
  have sub: "set dangerousDML \<subseteq> K" "set dangerousDDL \<subseteq> K" "set dangerousExec \<subseteq> K"
    "set backupCmds \<subseteq> K" "set adminCmds \<subseteq> K" "set securityCmds \<subseteq> K"
    "set timingFunctions \<subseteq> K"
    by (auto simp: K_def allKeywords_def)
  have step: "grownBy K kp (snd (firstKeyword sql ks a))" if "grownBy K kp a" and "set ks \<subseteq> K"
    for ks a
  proof -
    have "grownBy (K \<union> set ks) kp (snd (firstKeyword sql ks a))"
      using that(1) firstKeyword_snd by (rule grownBy_trans)
    with that(2) show ?thesis
      by (simp add: Un_absorb2)
  qed
  obtain r1 kp1 where e1: "firstKeyword sql dangerousDML kp = (r1, kp1)"
    by (cases "firstKeyword sql dangerousDML kp")
  obtain r2 kp2 where e2: "firstKeyword sql dangerousDDL kp1 = (r2, kp2)"
    by (cases "firstKeyword sql dangerousDDL kp1")
  obtain r3 kp3 where e3: "firstKeyword sql dangerousExec kp2 = (r3, kp3)"
    by (cases "firstKeyword sql dangerousExec kp2")
  obtain r4 kp4 where e4: "firstKeyword sql backupCmds kp3 = (r4, kp4)"
    by (cases "firstKeyword sql backupCmds kp3")
  obtain r5 kp5 where e5: "firstKeyword sql adminCmds kp4 = (r5, kp5)"
    by (cases "firstKeyword sql adminCmds kp4")
  obtain r6 kp6 where e6: "firstKeyword sql securityCmds kp5 = (r6, kp6)"
    by (cases "firstKeyword sql securityCmds kp5")
  obtain r7 kp7 where e7: "firstKeyword sql timingFunctions kp6 = (r7, kp7)"
    by (cases "firstKeyword sql timingFunctions kp6")
  have g0: "grownBy K kp kp"
    by (rule grownBy_refl)
  have g1: "grownBy K kp kp1"
    using step [OF g0 sub(1)] e1 by simp
  have g2: "grownBy K kp kp2"
    using step [OF g1 sub(2)] e2 by simp
  have g3: "grownBy K kp kp3"
    using step [OF g2 sub(3)] e3 by simp
  have g4: "grownBy K kp kp4"
    using step [OF g3 sub(4)] e4 by simp
  have g5: "grownBy K kp kp5"
    using step [OF g4 sub(5)] e5 by simp
  have g6: "grownBy K kp kp6"
    using step [OF g5 sub(6)] e6 by simp
  have g7: "grownBy K kp kp7"
    using step [OF g6 sub(7)] e7 by simp
  show ?thesis
    unfolding Validate_def validateRest_def validateNoTimingAttacks_def Let_def
      sql_def [symmetric] K_def [symmetric]
    by (simp add: e1 e2 e3 e4 e5 e6 e7 g0 g1 g2 g3 g4 g5 g6 g7 split: option.splits)
qed

lemma wellFormed_empty: "wellFormed Map.empty"
  by (simp add: wellFormed_def)

lemma validateAll_wellFormed: "wellFormed kp \<Longrightarrow> wellFormed (validateAll mapUpper qs kp)"
proof (induction qs arbitrary: kp)
  case Nil
  then show ?case by simp
next
  case (Cons q qs)
  from Cons.prems Validate_snd_grownBy
  have "wellFormed (snd (Validate (NewSQLValidator mapUpper q) kp))"
    by (rule grownBy_wellFormed)
  then show ?case
    by (simp add: Cons.IH)
qed

text \<open>After any run of validations the outcome is the one on the empty table.\<close>

lemma Validate_after_history:
  "fst (Validate v (validateAll mapUpper qs Map.empty)) = fst (Validate v Map.empty)"
  by (rule Validate_fst_wellFormed) (simp_all add: validateAll_wellFormed wellFormed_empty)

section \<open>Properties of the validator\<close>

subsection \<open>The trailing semicolon\<close>

lemma select_semicolon_cold:
  "fst (Validate (NewSQLValidator mapUpper ''SELECT 1;'') Map.empty) = Some StackedQueries"
  by code_simp

lemma select_semicolon_scan:
  "validateMultipleStatements (NewSQLValidator mapUpper ''SELECT 1;'') = None"
  by code_simp

text \<open>
  Claim C1 says that \<open>Validate\<close> accepts the query \<open>SELECT 1;\<close>. The scan of the raw
  query (step 13, \<open>validateMultipleStatements\<close>) lets the trailing semicolon pass, as its
  comment "allowed at the end" says. Step 15 then counts the semicolons of the text
  without literals, finds this one and rejects the query with "Multiple commands are not
  allowed", whatever was validated before.
\<close>

theorem trailing_semicolon_rejected:
  "validateMultipleStatements (NewSQLValidator mapUpper ''SELECT 1;'') = None
   \<and> fst (Validate (NewSQLValidator mapUpper ''SELECT 1;'') (validateAll mapUpper qs Map.empty))
       = Some StackedQueries"
  by (simp only: Validate_after_history select_semicolon_cold select_semicolon_scan)

theorem trailing_semicolon_rejected_witness:
  "validateMultipleStatements (NewSQLValidator (\<lambda>s. s) ''SELECT 1;'') = None
   \<and> fst (Validate (NewSQLValidator (\<lambda>s. s) ''SELECT 1;'') (validateAll (\<lambda>s. s) [''SELECT 2''] Map.empty))
       = Some StackedQueries"
  by (rule trailing_semicolon_rejected)

subsection \<open>Normalization\<close>

lemma normalize_multiline_comment:
  "normalizeSQL mapUpper (''/*'' @ [CHR 0x0A] @ ''*/'') = ''/* */''"
  by code_simp

lemma normalize_oneline_comment: "normalizeSQL mapUpper ''/* */'' = []"
  by code_simp

text \<open>
  Claim C2 says that \<open>normalizeSQL\<close> is idempotent. A block comment that holds a newline
  is not matched by \<open>reBlockComments\<close>, whose dot stops at a newline; the white space
  step then turns the newline into a space, so the result \<open>/* */\<close> still holds the
  comment, and a second normalization removes it: on this query normalizing twice differs
  from normalizing once.
\<close>

theorem normalizeSQL_not_idempotent:
  "normalizeSQL mapUpper (normalizeSQL mapUpper (''/*'' @ [CHR 0x0A] @ ''*/''))
     \<noteq> normalizeSQL mapUpper (''/*'' @ [CHR 0x0A] @ ''*/'')"
  by (simp only: normalize_multiline_comment normalize_oneline_comment) simp

theorem normalizeSQL_not_idempotent_witness:
  "normalizeSQL (\<lambda>s. s) (normalizeSQL (\<lambda>s. s) (''/*'' @ [CHR 0x0A] @ ''*/''))
     \<noteq> normalizeSQL (\<lambda>s. s) (''/*'' @ [CHR 0x0A] @ ''*/'')"
  by (rule normalizeSQL_not_idempotent)

subsection \<open>Literals\<close>

lemma literal_query_cold:
  "fst (Validate (NewSQLValidator mapUpper (''SELECT * FROM t WHERE name = 'DROP TABLE'' @ [CHR 0x27])) Map.empty) = None"
  by code_simp

lemma literal_query_masked:
  "removeStringLiterals (normalizeSQL mapUpper (''SELECT * FROM t WHERE name = 'DROP TABLE'' @ [CHR 0x27]))
    = ''SELECT * FROM T WHERE NAME = '' @ [CHR 0x27, CHR 0x27]"
  by code_simp

text \<open>
  Claim C4: the query \<open>SELECT * FROM t WHERE name = 'DROP TABLE'\<close> is accepted. The text
  without literals keeps the two quotes and none of the words between them, so the
  keyword \<open>DROP\<close> of the literal reaches no rule, and \<open>Validate\<close> returns \<open>nil\<close>
  whatever was validated before.
\<close>

theorem literal_safety:
  "removeStringLiterals
     (normalizeSQL mapUpper (''SELECT * FROM t WHERE name = 'DROP TABLE'' @ [CHR 0x27]))
     = ''SELECT * FROM T WHERE NAME = '' @ [CHR 0x27, CHR 0x27]
   \<and> fst (Validate
           (NewSQLValidator mapUpper (''SELECT * FROM t WHERE name = 'DROP TABLE'' @ [CHR 0x27]))
           (validateAll mapUpper qs Map.empty)) = None"
  by (simp only: Validate_after_history literal_query_cold literal_query_masked)

theorem literal_safety_witness:
  "removeStringLiterals
     (normalizeSQL (\<lambda>s. s) (''SELECT * FROM t WHERE name = 'DROP TABLE'' @ [CHR 0x27]))
     = ''SELECT * FROM T WHERE NAME = '' @ [CHR 0x27, CHR 0x27]
   \<and> fst (Validate
           (NewSQLValidator (\<lambda>s. s) (''SELECT * FROM t WHERE name = 'DROP TABLE'' @ [CHR 0x27]))
           (validateAll (\<lambda>s. s) [''SELECT 1;''] Map.empty)) = None"
  by (rule literal_safety)

end
